theory Spec2Isabelle
  imports Main
begin

section \<open>The Party block of \<open>src/block/block.js\<close>\<close>

text \<open>
  The block registers an attribute schema, an \<open>edit\<close> function and a \<open>save\<close> function.
  Both functions map the block's attributes to a tree of elements. The embedding follows
  the source top to bottom: the JavaScript values the two functions build, the attribute
  record of the schema, the helpers the functions call (\<open>classnames\<close>, property lookup on
  an object literal), then \<open>edit\<close> with its handlers and \<open>save\<close>.
\<close>

subsection \<open>JavaScript values and element trees\<close>

text \<open>
  The values that occur in the trees built by \<open>edit\<close> and \<open>save\<close>. An element
  \<open>createElement(tag, props, ...children)\<close> is \<open>JElem tag props children\<close>; a component
  (\<open>RichText\<close>, \<open>MediaUpload\<close>, ...) is an element whose tag is the component's name and
  which is not expanded. A callback is opaque and carries the name of the function of this
  theory that models it (\<open>JFun\<close>); the one callback whose result is markup, the \<open>render\<close>
  argument of \<open>MediaUpload\<close>, is kept as the tree it returns (\<open>JRender\<close>).
\<close>

datatype jsval =
    JUndefined
  | JBool bool
  | JStr string
  | JFun string
  | JRender jsval
  | JArr "jsval list"
  | JObj "(string \<times> jsval) list"
  | JElem string "(string \<times> jsval) list" "jsval list"

datatype js_error = TypeError

text \<open>An attribute of schema type \<open>string\<close> is a string or absent (\<open>undefined\<close>).\<close>

definition of_str :: "string option \<Rightarrow> jsval" where
  "of_str v = (case v of None \<Rightarrow> JUndefined | Some s \<Rightarrow> JStr s)"

text \<open>\<open>ToBoolean\<close>: \<open>undefined\<close>, \<open>false\<close> and the empty string are falsy.\<close>

fun js_truthy :: "jsval \<Rightarrow> bool" where
  "js_truthy JUndefined = False"
| "js_truthy (JBool b) = b"
| "js_truthy (JStr s) = (s \<noteq> [])"
| "js_truthy _ = True"

definition truthy :: "string option \<Rightarrow> bool" where
  "truthy v = js_truthy (of_str v)"

text \<open>\<open>a || b\<close> on string-or-absent operands.\<close>

definition js_or :: "string option \<Rightarrow> string option \<Rightarrow> string option" where
  "js_or a b = (if truthy a then a else b)"

text \<open>
  \<open>ToString\<close> of a string-or-absent value, as applied by a template literal and by a
  computed property key: \<open>undefined\<close> becomes the text \<open>undefined\<close>.
\<close>

definition to_string :: "string option \<Rightarrow> string" where
  "to_string v = (case v of None \<Rightarrow> ''undefined'' | Some s \<Rightarrow> s)"

text \<open>
  An object literal evaluates its property definitions in order; a key defined twice keeps
  its first position and takes the later value. (JavaScript enumerates keys that are array
  indices before the others; that can only change the order of the class names built
  below, and no property proved here depends on their order.)
\<close>

fun obj_put :: "string \<Rightarrow> jsval \<Rightarrow> (string \<times> jsval) list \<Rightarrow> (string \<times> jsval) list" where
  "obj_put k v [] = [(k, v)]"
| "obj_put k v (p # ps) = (if fst p = k then (k, v) # ps else p # obj_put k v ps)"

definition object_literal :: "(string \<times> jsval) list \<Rightarrow> (string \<times> jsval) list" where
  "object_literal defs = foldl (\<lambda>obj kv. obj_put (fst kv) (snd kv) obj) [] defs"

subsection \<open>The \<open>classnames\<close> helper\<close>

text \<open>
  \<open>classnames(...args)\<close> collects a class name from every truthy string argument and the
  keys with a truthy value from every object argument, descends into arrays, and joins
  the names with a space. \<open>classnames_list\<close> is the list before the join. (The source
  passes a string-or-absent \<open>className\<close> and one object literal.)
\<close>

fun classnames_arg :: "jsval \<Rightarrow> string list" where
  "classnames_arg (JStr s) = (if s = [] then [] else [s])"
| "classnames_arg (JObj kvs) = map fst (filter (\<lambda>kv. js_truthy (snd kv)) kvs)"
| "classnames_arg (JArr xs) = concat (map classnames_arg xs)"
| "classnames_arg _ = []"

definition classnames_list :: "jsval list \<Rightarrow> string list" where
  "classnames_list args = concat (map classnames_arg args)"

fun join_with :: "string \<Rightarrow> string list \<Rightarrow> string" where
  "join_with sep [] = []"
| "join_with sep [x] = x"
| "join_with sep (x # y # ys) = x @ sep @ join_with sep (y # ys)"

definition classnames :: "jsval list \<Rightarrow> string" where
  "classnames args = join_with '' '' (classnames_list args)"

subsection \<open>Attributes, props and the media selection\<close>

text \<open>
  The attribute schema (lines 45 to 76): \<open>content\<close> is an array, \<open>imgId\<close> a number,
  \<open>extras\<close> a boolean with default \<open>true\<close>, the others strings; an attribute without a
  default may be absent.
\<close>

record attributes =
  content :: "jsval list"
  imgId :: "int option"
  imgUrl :: "string option"
  mediaType :: "string option"
  backgroundColor :: "string option"
  customBackgroundColor :: "string option"
  extras :: bool
  contentAlign :: "string option"

text \<open>
  The object \<open>withColors('backgroundColor')\<close> passes to \<open>edit\<close> as \<open>props.backgroundColor\<close>:
  the resolved colour value and, when the theme knows the colour, its class.
\<close>

record color_object =
  color :: "string option"
  color_class :: "string option"

record props =
  isSelected :: bool
  className :: "string option"
  attributes :: attributes
  backgroundColor_prop :: color_object

text \<open>The selection object the media picker hands to \<open>onSelect\<close>.\<close>

record media =
  media_type :: "string option"
  type :: "string option"
  url :: "string option"
  id' :: "int option"

subsection \<open>Attribute updates\<close>

text \<open>
  A call \<open>setAttributes({ k1: v1, ... })\<close> passes a partial update: the list of the
  properties of the object literal, in order. A handler is modelled by the list of
  \<open>setAttributes\<close> calls it makes.
\<close>

datatype attr_update =
    Set_content "jsval list"
  | Set_imgId "int option"
  | Set_imgUrl "string option"
  | Set_mediaType "string option"
  | Set_extras bool
  | Set_contentAlign "string option"

fun update_key :: "attr_update \<Rightarrow> string" where
  "update_key (Set_content _) = ''content''"
| "update_key (Set_imgId _) = ''imgId''"
| "update_key (Set_imgUrl _) = ''imgUrl''"
| "update_key (Set_mediaType _) = ''mediaType''"
| "update_key (Set_extras _) = ''extras''"
| "update_key (Set_contentAlign _) = ''contentAlign''"

fun apply_update :: "attr_update \<Rightarrow> attributes \<Rightarrow> attributes" where
  "apply_update (Set_content v) a = a\<lparr>content := v\<rparr>"
| "apply_update (Set_imgId v) a = a\<lparr>imgId := v\<rparr>"
| "apply_update (Set_imgUrl v) a = a\<lparr>imgUrl := v\<rparr>"
| "apply_update (Set_mediaType v) a = a\<lparr>mediaType := v\<rparr>"
| "apply_update (Set_extras v) a = a\<lparr>extras := v\<rparr>"
| "apply_update (Set_contentAlign v) a = a\<lparr>contentAlign := v\<rparr>"

text \<open>
  Modelled from the spec: the host editor's attribute setter, which is not part of the
  repository. "Every control invokes the attribute-setter with a partial update": the
  properties of the update replace the attributes of the same name, the others stay.
\<close>

definition setAttributes :: "attr_update list \<Rightarrow> attributes \<Rightarrow> attributes" where
  "setAttributes upd a = foldl (\<lambda>acc u. apply_update u acc) a upd"

definition run_handler :: "attr_update list list \<Rightarrow> attributes \<Rightarrow> attributes" where
  "run_handler calls a = foldl (\<lambda>acc upd. setAttributes upd acc) a calls"

subsection \<open>\<open>edit\<close> (lines 89 to 215)\<close>

text \<open>Lines 109 to 112: the argument list of \<open>classnames\<close>, and \<open>classes\<close>.\<close>

definition edit_class_args :: "props \<Rightarrow> jsval list" where
  "edit_class_args p =
     [ of_str (className p),
       JObj (object_literal
         [ (to_string (color_class (backgroundColor_prop p)),
              of_str (color_class (backgroundColor_prop p))),
           (''has-'' @ to_string (contentAlign (attributes p)) @ ''-content'',
              of_str (contentAlign (attributes p))) ]) ]"

definition edit_classes :: "props \<Rightarrow> string" where
  "edit_classes p = classnames (edit_class_args p)"

text \<open>Line 114.\<close>

definition edit_styles :: "props \<Rightarrow> (string \<times> jsval) list" where
  "edit_styles p =
     object_literal
       [ (''backgroundColor'', of_str (color (backgroundColor_prop p))),
         (''textAlign'', of_str (contentAlign (attributes p))) ]"

text \<open>Lines 116 to 135: \<open>onUploadImage\<close>, with its one call of \<open>setAttributes\<close>.\<close>

definition onUploadImage :: "media \<Rightarrow> attr_update list list" where
  "onUploadImage m =
     (let mediaType =
            (if truthy (media_type m) then
               (if media_type m = Some ''image'' then Some ''image'' else Some ''video'')
             else type m)
      in [[Set_imgUrl (url m), Set_imgId (id' m), Set_mediaType mediaType]])"

text \<open>The inline handlers of lines 160, 180 and 200.\<close>

definition onChange_extras :: "attributes \<Rightarrow> attr_update list list" where
  "onChange_extras a = [[Set_extras (\<not> extras a)]]"

definition onChange_contentAlign :: "string option \<Rightarrow> attr_update list list" where
  "onChange_contentAlign nextContentAlign = [[Set_contentAlign nextContentAlign]]"

definition onChange_content :: "jsval list \<Rightarrow> attr_update list list" where
  "onChange_content c = [[Set_content c]]"

text \<open>Lines 137 to 146: \<open>getMedia\<close>; \<open>imgUrl\<close> is the attribute of the enclosing call.\<close>

definition getMedia :: "attributes \<Rightarrow> string option \<Rightarrow> jsval" where
  "getMedia a mt =
     (if mt = Some ''image'' then JElem ''img'' [(''src'', of_str (imgUrl a))] []
      else JElem ''video'' [(''controls'', JBool True), (''src'', of_str (imgUrl a))] [])"

text \<open>Lines 190 to 194: the \<open>render\<close> callback of \<open>MediaUpload\<close>, applied to \<open>{ open }\<close>.\<close>

definition MediaUpload_render :: "attributes \<Rightarrow> jsval \<Rightarrow> jsval" where
  "MediaUpload_render a open_cb =
     JElem ''Button'' [(''onClick'', open_cb)]
       [ if \<not> truthy (imgUrl a) then JElem ''Dashicon'' [(''icon'', JStr ''format-image'')] []
         else getMedia a (mediaType a) ]"

text \<open>
  Lines 150 to 184: the controls shown while the block is selected. The first argument of
  \<open>edit\<close> is the translation function \<open>__\<close> of the host.
\<close>

definition edit_controls :: "(string \<Rightarrow> string) \<Rightarrow> props \<Rightarrow> jsval" where
  "edit_controls tr p =
     JElem ''Fragment'' []
       [ JElem ''InspectorControls'' []
           [ JElem ''PanelBody''
               [ (''title'', JStr (tr ''Party Settings'')), (''initialOpen'', JBool False) ]
               [ JElem ''ToggleControl''
                   [ (''label'', JStr (tr ''View Extras'')),
                     (''checked'', JBool (extras (attributes p))),
                     (''onChange'', JFun ''onChange_extras''),
                     (''help'', JStr (if extras (attributes p) then tr ''Showing the extras.''
                                      else tr ''Toggle to show the extras.'')) ]
                   [] ],
             JElem ''PanelColorSettings''
               [ (''title'', JStr (tr ''Color Settings'')), (''initialOpen'', JBool False),
                 (''colorSettings'',
                    JArr [ JObj (object_literal
                      [ (''value'', of_str (color (backgroundColor_prop p))),
                        (''onChange'', JFun ''setBackgroundColor''),
                        (''label'', JStr (tr ''Background Color'')) ]) ]) ]
               [] ],
         JElem ''BlockControls'' []
           [ JElem ''AlignmentToolbar''
               [ (''value'', of_str (contentAlign (attributes p))),
                 (''onChange'', JFun ''onChange_contentAlign'') ]
               [] ] ]"

text \<open>Lines 204 to 211; the first paragraph starts with an em dash (three bytes of UTF-8).\<close>

definition edit_footer :: jsval where
  "edit_footer =
     JElem ''div'' []
       [ JElem ''p'' []
           [ JStr ([CHR 0xE2, CHR 0x80, CHR 0x94] @ '' Hello from the bssackend.'') ],
         JElem ''p'' []
           [ JStr ''CGB BLOCK: '',
             JElem ''code'' [] [JStr ''cgb-hello-gutenberg''],
             JStr '' is a new Gutenberg block'' ] ]"

text \<open>Lines 148 to 213.\<close>

definition edit :: "(string \<Rightarrow> string) \<Rightarrow> props \<Rightarrow> jsval" where
  "edit tr p =
     JElem ''div'' [ (''className'', JStr (edit_classes p)), (''style'', JObj (edit_styles p)) ]
       [ if isSelected p then edit_controls tr p else JBool False,
         JElem ''MediaUploadCheck'' []
           [ JElem ''MediaUpload''
               [ (''onSelect'', JFun ''onUploadImage''),
                 (''allowedTypes'', JArr [JStr ''image'', JStr ''video'']),
                 (''value'', of_str (imgUrl (attributes p))),
                 (''render'', JRender (MediaUpload_render (attributes p) (JFun ''open''))) ]
               [] ],
         JElem ''RichText''
           [ (''tagName'', JStr ''p''),
             (''className'', of_str (className p)),
             (''onChange'', JFun ''onChange_content''),
             (''value'', JArr (content (attributes p))) ]
           [],
         if extras (attributes p) then edit_footer else JBool False ]"

subsection \<open>\<open>save\<close> (lines 225 to 268)\<close>

text \<open>
  Lines 228 to 231 and 249: \<open>mediaTypeRenders\<close> is an object literal with the two own
  properties \<open>image\<close> and \<open>video\<close>. The lookup \<open>mediaTypeRenders[key]\<close> is an ordinary
  property read: a key that is not an own property is looked up in \<open>Object.prototype\<close>,
  whose members are the eleven methods below and the accessor \<open>__proto__\<close> (which yields
  \<open>Object.prototype\<close> itself); any other key yields \<open>undefined\<close>.
\<close>

datatype member =
    Image_render
  | Video_render
  | Builtin string
  | Prototype_object
  | Undefined_member

definition object_prototype_methods :: "string list" where
  "object_prototype_methods =
     [ ''constructor'', ''__defineGetter__'', ''__defineSetter__'', ''hasOwnProperty'',
       ''__lookupGetter__'', ''__lookupSetter__'', ''isPrototypeOf'',
       ''propertyIsEnumerable'', ''toString'', ''valueOf'', ''toLocaleString'' ]"

definition mediaTypeRenders :: "string \<Rightarrow> member" where
  "mediaTypeRenders key =
     (if key = ''image'' then Image_render
      else if key = ''video'' then Video_render
      else if key = ''__proto__'' then Prototype_object
      else if key \<in> set object_prototype_methods then Builtin key
      else Undefined_member)"

text \<open>
  A method of \<open>Object.prototype\<close> called as a plain function with no argument (the module
  is strict code, so \<open>this\<close> is \<open>undefined\<close>): \<open>constructor\<close> is \<open>Object\<close> and returns a new
  empty object, \<open>toString\<close> returns a fixed text, \<open>isPrototypeOf\<close> returns \<open>false\<close>, and
  the others raise a TypeError when they convert \<open>this\<close> to an object.
\<close>

definition call_builtin :: "string \<Rightarrow> js_error + jsval" where
  "call_builtin name =
     (if name = ''constructor'' then Inr (JObj [])
      else if name = ''toString'' then Inr (JStr ''[object Undefined]'')
      else if name = ''isPrototypeOf'' then Inr (JBool False)
      else Inl TypeError)"

text \<open>
  Line 249: \<open>( mediaTypeRenders[ props.attributes.mediaType ] || noop )()\<close>. Every member
  found is truthy, so \<open>noop\<close> is called only for \<open>undefined\<close>; calling the object
  \<open>Object.prototype\<close> raises a TypeError.
\<close>

definition media_render :: "attributes \<Rightarrow> js_error + jsval" where
  "media_render a =
     (case mediaTypeRenders (to_string (mediaType a)) of
        Image_render \<Rightarrow> Inr (JElem ''img'' [(''src'', of_str (imgUrl a))] [])
      | Video_render \<Rightarrow>
          Inr (JElem ''video'' [(''controls'', JBool True), (''src'', of_str (imgUrl a))] [])
      | Builtin name \<Rightarrow> call_builtin name
      | Prototype_object \<Rightarrow> Inl TypeError
      | Undefined_member \<Rightarrow> Inr JUndefined)"

text \<open>
  Line 234. \<open>getColorClassName\<close> belongs to the host; \<open>save\<close> takes it as its first
  argument. It receives the context name and the colour key and returns a class name or
  \<open>undefined\<close>.
\<close>

type_synonym color_lookup = "string \<Rightarrow> string option \<Rightarrow> string option"

definition backgroundClass :: "color_lookup \<Rightarrow> attributes \<Rightarrow> string option" where
  "backgroundClass getColorClassName a = getColorClassName ''background-color'' (backgroundColor a)"

text \<open>Lines 236 to 240: the argument list of \<open>classnames\<close>, and \<open>classes\<close>.\<close>

definition save_class_args :: "color_lookup \<Rightarrow> attributes \<Rightarrow> jsval list" where
  "save_class_args getColorClassName a =
     [ JObj (object_literal
         [ (''has-background'', of_str (js_or (backgroundColor a) (customBackgroundColor a))),
           (to_string (backgroundClass getColorClassName a),
              of_str (backgroundClass getColorClassName a)),
           (''has-'' @ to_string (contentAlign a) @ ''-content'', of_str (contentAlign a)) ]) ]"

definition save_classes :: "color_lookup \<Rightarrow> attributes \<Rightarrow> string" where
  "save_classes getColorClassName a = classnames (save_class_args getColorClassName a)"

text \<open>Lines 242 to 245.\<close>

definition save_styles :: "color_lookup \<Rightarrow> attributes \<Rightarrow> (string \<times> jsval) list" where
  "save_styles getColorClassName a =
     object_literal
       [ (''backgroundColor'',
            if truthy (backgroundClass getColorClassName a) then JUndefined
            else of_str (customBackgroundColor a)),
         (''textAlign'', of_str (contentAlign a)) ]"

text \<open>Lines 252 to 264.\<close>

definition save_footer :: jsval where
  "save_footer =
     JElem ''div'' []
       [ JElem ''p'' []
           [ JStr ''CGB BLOCK: '',
             JElem ''code'' [] [JStr ''cgb-hello-gutenberg''],
             JStr '' is a new Gutenberg block.'' ],
         JElem ''p'' []
           [ JStr ''It was created via'',
             JStr '' '',
             JElem ''code'' []
               [ JElem ''a'' [(''href'', JStr ''https://github.com/ahmadawais/create-guten-block'')]
                   [JStr ''create-guten-block''] ],
             JStr ''.'' ] ]"

text \<open>
  Lines 247 to 267. The children are evaluated in order, so an error of the media call
  is the result of \<open>save\<close>.
\<close>

definition save :: "color_lookup \<Rightarrow> props \<Rightarrow> js_error + jsval" where
  "save getColorClassName p =
     (case media_render (attributes p) of
        Inl e \<Rightarrow> Inl e
      | Inr m \<Rightarrow>
          Inr (JElem ''div''
                 [ (''className'', JStr (save_classes getColorClassName (attributes p))),
                   (''style'', JObj (save_styles getColorClassName (attributes p))) ]
                 [ m,
                   JElem ''RichText.Content''
                     [ (''tagName'', JStr ''p''), (''value'', JArr (content (attributes p))) ]
                     [],
                   if extras (attributes p) then save_footer else JBool False ]))"

subsection \<open>Reading a tree\<close>

text \<open>
  The elements with a given tag that a tree displays, in document order: the element
  itself, what the render callbacks among its props return, and its children. Props that
  carry data (the rich-text \<open>value\<close>, the style object) are not markup of the tree.
\<close>

fun elems :: "string \<Rightarrow> jsval \<Rightarrow> jsval list" where
  "elems t (JElem tag ps kids) =
     (if tag = t then [JElem tag ps kids] else [])
       @ concat (map (\<lambda>kv. case snd kv of JRender r \<Rightarrow> elems t r | _ \<Rightarrow> []) ps)
       @ concat (map (elems t) kids)"
| "elems t (JArr xs) = concat (map (elems t) xs)"
| "elems t _ = []"

text \<open>The value of a prop of an element (\<open>undefined\<close> when it has none).\<close>

fun get_prop :: "string \<Rightarrow> jsval \<Rightarrow> jsval" where
  "get_prop k (JElem tag ps kids) = (case map_of ps k of None \<Rightarrow> JUndefined | Some v \<Rightarrow> v)"
| "get_prop k (JObj kvs) = (case map_of kvs k of None \<Rightarrow> JUndefined | Some v \<Rightarrow> v)"
| "get_prop k _ = JUndefined"

fun children :: "jsval \<Rightarrow> jsval list" where
  "children (JElem tag ps kids) = kids"
| "children _ = []"

text \<open>
  A sample theme lookup for concrete evaluations: a non-empty colour key \<open>k\<close> resolves to
  the class \<open>has-k-ctx\<close>, an absent or empty key to nothing.
\<close>

definition sample_lookup :: color_lookup where
  "sample_lookup ctx slug =
     (if ctx = [] \<or> \<not> truthy slug then None
      else Some (''has-'' @ to_string slug @ ''-'' @ ctx))"

definition no_attributes :: attributes where
  "no_attributes =
     \<lparr> content = [], imgId = None, imgUrl = None, mediaType = None, backgroundColor = None,
       customBackgroundColor = None, extras = True, contentAlign = None \<rparr>"

definition default_props :: props where
  "default_props =
     \<lparr> isSelected = False, className = None, attributes = no_attributes,
       backgroundColor_prop = \<lparr> color = None, color_class = None \<rparr> \<rparr>"

section \<open>Properties\<close>

subsection \<open>Auxiliary facts\<close>

lemma of_str_simps [simp]: "of_str None = JUndefined" "of_str (Some s) = JStr s"
  by (simp_all add: of_str_def)

lemma of_str_no_render [simp]:
  "(case of_str v of JRender r \<Rightarrow> f r | _ \<Rightarrow> []) = []"
  by (cases v) (simp_all add: of_str_def)

lemma elems_save_footer:
  "elems ''img'' save_footer = []" "elems ''video'' save_footer = []"
  by (simp_all add: save_footer_def)

lemma elems_edit_footer:
  "elems ''img'' edit_footer = []" "elems ''video'' edit_footer = []"
  by (simp_all add: edit_footer_def)

lemma elems_edit_controls:
  "elems ''img'' (edit_controls tr p) = []" "elems ''video'' (edit_controls tr p) = []"
  by (simp_all add: edit_controls_def)

text \<open>The values the media call of line 249 can return.\<close>

lemma media_render_cases:
  assumes "media_render a = Inr m"
  shows "m = JElem ''img'' [(''src'', of_str (imgUrl a))] []
       \<or> m = JElem ''video'' [(''controls'', JBool True), (''src'', of_str (imgUrl a))] []
       \<or> m = JUndefined \<or> m = JObj [] \<or> m = JStr ''[object Undefined]'' \<or> m = JBool False"
  using assms
  by (auto simp: media_render_def call_builtin_def split: member.splits if_splits)

text \<open>
  The media call raises exactly for \<open>__proto__\<close> and for the eight inherited methods that
  convert \<open>this\<close> to an object.
\<close>

lemma media_render_raises_iff:
  "media_render a = Inl TypeError \<longleftrightarrow>
     to_string (mediaType a) \<in> set
       [ ''__proto__'', ''__defineGetter__'', ''__defineSetter__'', ''hasOwnProperty'',
         ''__lookupGetter__'', ''__lookupSetter__'', ''propertyIsEnumerable'', ''valueOf'',
         ''toLocaleString'' ]"
  by (auto simp: media_render_def mediaTypeRenders_def call_builtin_def
        object_prototype_methods_def)

text \<open>
  For a \<open>mediaType\<close> that is neither an own property of \<open>mediaTypeRenders\<close> nor a member
  of \<open>Object.prototype\<close> (an absent \<open>mediaType\<close> among them), \<open>save\<close> returns a tree without
  a media element.
\<close>

lemma save_unknown_mediaType:
  assumes "to_string (mediaType (attributes p))
             \<notin> set ([''image'', ''video'', ''__proto__''] @ object_prototype_methods)"
  shows "\<exists>t. save gcc p = Inr t \<and> elems ''img'' t = [] \<and> elems ''video'' t = []"
  using assms
  by (simp add: save_def media_render_def mediaTypeRenders_def elems_save_footer)

text \<open>With \<open>imgUrl\<close> absent the editor shows the placeholder icon and no media element.\<close>

lemma edit_no_media_without_imgUrl:
  assumes "imgUrl (attributes p) = None"
  shows "elems ''img'' (edit tr p) = [] \<and> elems ''video'' (edit tr p) = []"
  using assms
  by (simp add: edit_def MediaUpload_render_def truthy_def elems_edit_footer
        elems_edit_controls)

text \<open>Keys of the class objects of lines 110 to 111 and 237 to 239.\<close>

lemma has_background_not_content: "''has-background'' \<noteq> ''has-'' @ x @ ''-content''"
proof
  assume "''has-background'' = ''has-'' @ x @ ''-content''"
  then have "last ''has-background'' = last (''has-'' @ x @ ''-content'')" by simp
  then show False by simp
qed

lemma truthy_keys_extend:
  assumes "k1 \<noteq> k3" and "k1 = k2 \<longrightarrow> js_truthy v2"
  shows "set (classnames_arg (JObj (object_literal [(k1, v1), (k2, v2), (k3, v3)])))
       = set (classnames_arg (JObj (object_literal [(k2, v2), (k3, v3)])))
         \<union> (if js_truthy v1 then {k1} else {})"
  using assms
  by (cases "k1 = k2"; cases "k2 = k3"; cases "js_truthy v1"; cases "js_truthy v2";
      cases "js_truthy v3"; auto simp: object_literal_def)

lemma truthy_js_or: "js_truthy (of_str (js_or a b)) = (truthy a \<or> truthy b)"
  by (simp add: js_or_def truthy_def)

lemma to_string_key_truthy:
  assumes "to_string c = ''has-background''"
  shows "js_truthy (of_str c)"
proof (cases c)
  case None
  with assms show ?thesis by (simp add: to_string_def)
next
  case (Some s)
  with assms show ?thesis by (simp add: to_string_def)
qed

subsection \<open>The media selection handler\<close>

text \<open>
  Claim C1. For every selection object passed to \<open>onUploadImage\<close>: a \<open>media_type\<close> equal
  to \<open>image\<close> sets the attribute \<open>mediaType\<close> to \<open>image\<close>; any other non-empty
  \<open>media_type\<close> sets it to \<open>video\<close>; a selection without \<open>media_type\<close> sets it to the value
  of the selection's \<open>type\<close> field.
\<close>

theorem onUploadImage_mediaType:
  "(media_type m = Some ''image'' \<longrightarrow>
      mediaType (run_handler (onUploadImage m) a) = Some ''image'')
   \<and> (truthy (media_type m) \<and> media_type m \<noteq> Some ''image'' \<longrightarrow>
      mediaType (run_handler (onUploadImage m) a) = Some ''video'')
   \<and> (media_type m = None \<longrightarrow>
      mediaType (run_handler (onUploadImage m) a) = type m)"
  by (simp add: onUploadImage_def run_handler_def setAttributes_def truthy_def of_str_def)

theorem onUploadImage_mediaType_witness:
  "mediaType (run_handler (onUploadImage
      \<lparr> media_type = Some ''image'', type = None, url = Some ''a.png'', id' = Some 7 \<rparr>)
      no_attributes) = Some ''image''
   \<and> truthy (Some ''file'')
   \<and> mediaType (run_handler (onUploadImage
      \<lparr> media_type = Some ''file'', type = Some ''attachment'', url = Some ''b.mp4'',
        id' = Some 8 \<rparr>) no_attributes) = Some ''video''
   \<and> mediaType (run_handler (onUploadImage
      \<lparr> media_type = None, type = Some ''video'', url = Some ''c.mp4'', id' = Some 9 \<rparr>)
      no_attributes) = Some ''video''"
  using
    onUploadImage_mediaType [of
      "\<lparr> media_type = Some ''image'', type = None, url = Some ''a.png'', id' = Some 7 \<rparr>"
      no_attributes]
    onUploadImage_mediaType [of
      "\<lparr> media_type = Some ''file'', type = Some ''attachment'', url = Some ''b.mp4'',
         id' = Some 8 \<rparr>" no_attributes]
    onUploadImage_mediaType [of
      "\<lparr> media_type = None, type = Some ''video'', url = Some ''c.mp4'', id' = Some 9 \<rparr>"
      no_attributes]
  by (simp add: truthy_def of_str_def)

text \<open>
  Claim C9. \<open>onUploadImage\<close> makes a single \<open>setAttributes\<close> call whose update has exactly
  the keys \<open>imgUrl\<close>, \<open>imgId\<close> and \<open>mediaType\<close>; after it \<open>imgUrl\<close> and \<open>imgId\<close> hold the
  selection's \<open>url\<close> and \<open>id\<close>, and \<open>content\<close>, \<open>backgroundColor\<close>,
  \<open>customBackgroundColor\<close>, \<open>extras\<close> and \<open>contentAlign\<close> are unchanged.
\<close>

theorem onUploadImage_frame:
  "map (map update_key) (onUploadImage m) = [[''imgUrl'', ''imgId'', ''mediaType'']]
   \<and> imgUrl (run_handler (onUploadImage m) a) = url m
   \<and> imgId (run_handler (onUploadImage m) a) = id' m
   \<and> content (run_handler (onUploadImage m) a) = content a
   \<and> backgroundColor (run_handler (onUploadImage m) a) = backgroundColor a
   \<and> customBackgroundColor (run_handler (onUploadImage m) a) = customBackgroundColor a
   \<and> extras (run_handler (onUploadImage m) a) = extras a
   \<and> contentAlign (run_handler (onUploadImage m) a) = contentAlign a"
  by (simp add: onUploadImage_def run_handler_def setAttributes_def Let_def)

subsection \<open>The serializer\<close>

text \<open>
  Claim C2. For every attribute record with \<open>mediaType = image\<close> and \<open>imgUrl\<close> set, \<open>save\<close>
  returns a tree with exactly one \<open>img\<close> element, whose \<open>src\<close> is that \<open>imgUrl\<close>, and no
  \<open>video\<close> element; for \<open>mediaType = video\<close> it returns a tree with exactly one \<open>video\<close>
  element with that \<open>src\<close> and no \<open>img\<close> element.
\<close>

theorem save_image_video:
  assumes "imgUrl (attributes p) = Some u"
  shows "(mediaType (attributes p) = Some ''image'' \<longrightarrow>
           (\<exists>t. save gcc p = Inr t
              \<and> elems ''img'' t = [JElem ''img'' [(''src'', JStr u)] []]
              \<and> elems ''video'' t = []))
       \<and> (mediaType (attributes p) = Some ''video'' \<longrightarrow>
           (\<exists>t. save gcc p = Inr t
              \<and> elems ''video'' t
                  = [JElem ''video'' [(''controls'', JBool True), (''src'', JStr u)] []]
              \<and> elems ''img'' t = []))"
  using assms
  by (simp add: save_def media_render_def mediaTypeRenders_def to_string_def
        elems_save_footer)

theorem save_image_video_witness:
  "(\<exists>t. save sample_lookup
          (default_props\<lparr>attributes :=
             no_attributes\<lparr>imgUrl := Some ''a.png'', mediaType := Some ''image''\<rparr>\<rparr>) = Inr t
       \<and> elems ''img'' t = [JElem ''img'' [(''src'', JStr ''a.png'')] []]
       \<and> elems ''video'' t = [])
   \<and> (\<exists>t. save sample_lookup
          (default_props\<lparr>attributes :=
             no_attributes\<lparr>imgUrl := Some ''b.mp4'', mediaType := Some ''video''\<rparr>\<rparr>) = Inr t
       \<and> elems ''video'' t
           = [JElem ''video'' [(''controls'', JBool True), (''src'', JStr ''b.mp4'')] []]
       \<and> elems ''img'' t = [])"
  using
    save_image_video [of
      "default_props\<lparr>attributes :=
         no_attributes\<lparr>imgUrl := Some ''a.png'', mediaType := Some ''image''\<rparr>\<rparr>"
      "''a.png''" sample_lookup]
    save_image_video [of
      "default_props\<lparr>attributes :=
         no_attributes\<lparr>imgUrl := Some ''b.mp4'', mediaType := Some ''video''\<rparr>\<rparr>"
      "''b.mp4''" sample_lookup]
  by simp

text \<open>
  Claim C3 says that for every \<open>mediaType\<close> other than \<open>image\<close> and \<open>video\<close> the serializer
  silently renders no media element. At \<open>mediaType = __proto__\<close> the lookup of line 249
  finds the inherited member, \<open>noop\<close> is not substituted, and the call raises a TypeError:
  \<open>save\<close> returns no tree.
\<close>

theorem save_inherited_member_raises:
  "save sample_lookup
     (default_props\<lparr>attributes := no_attributes\<lparr>mediaType := Some ''__proto__''\<rparr>\<rparr>)
   = Inl TypeError"
  by (simp add: save_def media_render_def mediaTypeRenders_def to_string_def)

text \<open>
  Claim C4. For every attribute record on which \<open>save\<close> returns: when the theme lookup,
  applied to the context \<open>background-color\<close> and the attribute \<open>backgroundColor\<close>,
  resolves a class, the \<open>backgroundColor\<close> of the inline style is unset, also when
  \<open>customBackgroundColor\<close> is set; when it resolves no class, the style's
  \<open>backgroundColor\<close> is \<open>customBackgroundColor\<close>.
\<close>

theorem save_style_background:
  assumes "media_render (attributes p) = Inr m"
  shows "\<exists>t. save gcc p = Inr t
           \<and> get_prop ''backgroundColor'' (get_prop ''style'' t)
               = (if truthy (gcc ''background-color'' (backgroundColor (attributes p)))
                  then JUndefined
                  else of_str (customBackgroundColor (attributes p)))"
  using assms
  by (simp add: save_def save_styles_def backgroundClass_def object_literal_def)

theorem save_style_background_witness:
  "media_render
     (no_attributes\<lparr>backgroundColor := Some ''red'', customBackgroundColor := Some ''#ff0000''\<rparr>)
     = Inr JUndefined
   \<and> sample_lookup ''background-color'' (Some ''red'') = Some ''has-red-background-color''
   \<and> (\<exists>t. save sample_lookup
          (default_props\<lparr>attributes :=
             no_attributes\<lparr>backgroundColor := Some ''red'',
               customBackgroundColor := Some ''#ff0000''\<rparr>\<rparr>) = Inr t
         \<and> get_prop ''backgroundColor'' (get_prop ''style'' t) = JUndefined)
   \<and> media_render (no_attributes\<lparr>customBackgroundColor := Some ''#ff0000''\<rparr>) = Inr JUndefined
   \<and> sample_lookup ''background-color'' None = None
   \<and> (\<exists>t. save sample_lookup
          (default_props\<lparr>attributes :=
             no_attributes\<lparr>customBackgroundColor := Some ''#ff0000''\<rparr>\<rparr>) = Inr t
         \<and> get_prop ''backgroundColor'' (get_prop ''style'' t) = JStr ''#ff0000'')"
proof -
  let ?p = "default_props\<lparr>attributes :=
              no_attributes\<lparr>backgroundColor := Some ''red'',
                customBackgroundColor := Some ''#ff0000''\<rparr>\<rparr>"
  let ?q = "default_props\<lparr>attributes :=
              no_attributes\<lparr>customBackgroundColor := Some ''#ff0000''\<rparr>\<rparr>"
  have hp: "media_render (attributes ?p) = Inr JUndefined"
    by (simp add: media_render_def mediaTypeRenders_def to_string_def no_attributes_def
          object_prototype_methods_def)
  have hq: "media_render (attributes ?q) = Inr JUndefined"
    by (simp add: media_render_def mediaTypeRenders_def to_string_def no_attributes_def
          object_prototype_methods_def)
  have cp: "sample_lookup ''background-color'' (Some ''red'') = Some ''has-red-background-color''"
    by (simp add: sample_lookup_def truthy_def to_string_def)
  have cq: "sample_lookup ''background-color'' None = None"
    by (simp add: sample_lookup_def truthy_def)
  have bp: "backgroundColor (attributes ?p) = Some ''red''"
    and bq: "backgroundColor (attributes ?q) = None"
    and uq: "customBackgroundColor (attributes ?q) = Some ''#ff0000''"
    by (simp_all add: no_attributes_def)
  from save_style_background [OF hp, of sample_lookup]
  have rp: "\<exists>t. save sample_lookup ?p = Inr t
              \<and> get_prop ''backgroundColor'' (get_prop ''style'' t) = JUndefined"
    unfolding bp cp by (simp add: truthy_def)
  from save_style_background [OF hq, of sample_lookup]
  have rq: "\<exists>t. save sample_lookup ?q = Inr t
              \<and> get_prop ''backgroundColor'' (get_prop ''style'' t) = JStr ''#ff0000''"
    unfolding bq cq uq by (simp add: truthy_def)
  show ?thesis
    using hp hq cp cq rp rq by simp
qed

text \<open>
  Claim C5. For every attribute record on which \<open>save\<close> returns: with \<open>extras\<close> true the
  tree contains the footer, a \<open>div\<close> of two paragraphs; with \<open>extras\<close> false the tree has
  no \<open>div\<close> below its root and no paragraph.
\<close>

theorem save_footer_extras:
  assumes "media_render (attributes p) = Inr m"
  shows "\<exists>t. save gcc p = Inr t
           \<and> (extras (attributes p) \<longrightarrow>
                 elems ''div'' t = [t, save_footer] \<and> elems ''p'' t = children save_footer
                 \<and> length (children save_footer) = 2)
           \<and> (\<not> extras (attributes p) \<longrightarrow> elems ''div'' t = [t] \<and> elems ''p'' t = [])"
  using assms media_render_cases [OF assms]
  by (auto simp: save_def save_footer_def)

theorem save_footer_extras_witness:
  "media_render no_attributes = Inr JUndefined
   \<and> extras no_attributes
   \<and> (\<exists>t. save sample_lookup default_props = Inr t
         \<and> elems ''div'' t = [t, save_footer] \<and> elems ''p'' t = children save_footer)
   \<and> \<not> extras (no_attributes\<lparr>extras := False\<rparr>)
   \<and> (\<exists>t. save sample_lookup
            (default_props\<lparr>attributes := no_attributes\<lparr>extras := False\<rparr>\<rparr>) = Inr t
         \<and> elems ''div'' t = [t] \<and> elems ''p'' t = [])"
proof -
  have h1: "media_render (attributes default_props) = Inr JUndefined"
    by (simp add: media_render_def mediaTypeRenders_def to_string_def no_attributes_def
          default_props_def object_prototype_methods_def)
  have h2: "media_render
              (attributes (default_props\<lparr>attributes := no_attributes\<lparr>extras := False\<rparr>\<rparr>))
            = Inr JUndefined"
    by (simp add: media_render_def mediaTypeRenders_def to_string_def no_attributes_def
          object_prototype_methods_def)
  have e: "extras no_attributes" "attributes default_props = no_attributes"
    by (simp_all add: no_attributes_def default_props_def)
  show ?thesis
    using h1 h2 e save_footer_extras [OF h1, of sample_lookup]
      save_footer_extras [OF h2, of sample_lookup]
    by auto
qed

text \<open>
  Claim C7 says that with \<open>imgUrl\<close> absent neither \<open>edit\<close> nor \<open>save\<close> renders a media
  element. \<open>edit\<close> tests \<open>imgUrl\<close> (line 192); \<open>save\<close> does not: with \<open>mediaType = image\<close>
  and no \<open>imgUrl\<close> it returns a tree whose first child is an \<open>img\<close> element without a
  source.
\<close>

theorem save_img_without_imgUrl:
  "imgUrl (no_attributes\<lparr>mediaType := Some ''image''\<rparr>) = None
   \<and> save sample_lookup
       (default_props\<lparr>attributes := no_attributes\<lparr>mediaType := Some ''image''\<rparr>\<rparr>)
     = Inr (JElem ''div''
         [ (''className'', JStr []),
           (''style'', JObj [(''backgroundColor'', JUndefined), (''textAlign'', JUndefined)]) ]
         [ JElem ''img'' [(''src'', JUndefined)] [],
           JElem ''RichText.Content'' [(''tagName'', JStr ''p''), (''value'', JArr [])] [],
           save_footer ])"
  by (simp add: save_def media_render_def mediaTypeRenders_def to_string_def
        default_props_def no_attributes_def save_classes_def save_class_args_def
        save_styles_def classnames_def classnames_list_def object_literal_def
        backgroundClass_def sample_lookup_def js_or_def truthy_def)

subsection \<open>The editor\<close>

text \<open>
  Claim C10. In \<open>edit\<close>, when \<open>imgUrl\<close> is set (truthy), every \<open>mediaType\<close> other than
  \<open>image\<close>, absent or unrecognized ones included, renders exactly one \<open>video\<close> element
  with that source and no \<open>img\<close> element: the editor never omits the media element.
\<close>

theorem edit_video_fallback:
  assumes "truthy (imgUrl (attributes p))" and "mediaType (attributes p) \<noteq> Some ''image''"
  shows "elems ''video'' (edit tr p)
           = [JElem ''video''
                [(''controls'', JBool True), (''src'', of_str (imgUrl (attributes p)))] []]
       \<and> elems ''img'' (edit tr p) = []"
  using assms
  by (simp add: edit_def MediaUpload_render_def getMedia_def elems_edit_footer
        elems_edit_controls)

theorem edit_video_fallback_witness:
  "truthy (Some ''c.mp4'') \<and> Some ''audio'' \<noteq> Some ''image''
   \<and> elems ''video'' (edit (\<lambda>s. s)
         (default_props\<lparr>attributes :=
            no_attributes\<lparr>imgUrl := Some ''c.mp4'', mediaType := Some ''audio''\<rparr>\<rparr>))
       = [JElem ''video'' [(''controls'', JBool True), (''src'', JStr ''c.mp4'')] []]
   \<and> elems ''img'' (edit (\<lambda>s. s)
         (default_props\<lparr>attributes :=
            no_attributes\<lparr>imgUrl := Some ''c.mp4'', mediaType := Some ''audio''\<rparr>\<rparr>)) = []"
  using edit_video_fallback [of
      "default_props\<lparr>attributes :=
         no_attributes\<lparr>imgUrl := Some ''c.mp4'', mediaType := Some ''audio''\<rparr>\<rparr>"
      "\<lambda>s. s"]
  by (simp add: truthy_def)

subsection \<open>Class names of the editor and of the serializer\<close>

text \<open>
  Claim C8 says that \<open>save\<close> and \<open>edit\<close> compute the same set of alignment and background
  class names. With only a custom background colour set, \<open>save\<close> computes the class
  \<open>has-background\<close> (line 237) and \<open>edit\<close> computes no class.
\<close>

theorem classes_counterexample:
  "set (classnames_list (save_class_args sample_lookup
          (no_attributes\<lparr>customBackgroundColor := Some ''#ff0000''\<rparr>)))
   \<noteq> set (classnames_list (edit_class_args
          \<lparr> isSelected = False, className = None,
            attributes = no_attributes\<lparr>customBackgroundColor := Some ''#ff0000''\<rparr>,
            backgroundColor_prop = \<lparr> color = Some ''#ff0000'', color_class = None \<rparr> \<rparr>))"
  by (simp add: classnames_list_def save_class_args_def edit_class_args_def
        object_literal_def backgroundClass_def sample_lookup_def truthy_def js_or_def
        to_string_def no_attributes_def)

text \<open>
  Claim C8, amended. When the class \<open>withColors\<close> passes to \<open>edit\<close> is the class the lookup
  resolves for \<open>backgroundColor\<close>, the class names of \<open>save\<close> are those of \<open>edit\<close> (its
  \<open>className\<close> argument left out) together with \<open>has-background\<close> whenever
  \<open>backgroundColor\<close> or \<open>customBackgroundColor\<close> is set.
\<close>

theorem save_classes_vs_edit:
  assumes "color_class (backgroundColor_prop p) = backgroundClass gcc (attributes p)"
  shows "set (classnames_list (save_class_args gcc (attributes p)))
       = set (classnames_list (edit_class_args (p\<lparr>className := None\<rparr>)))
         \<union> (if truthy (backgroundColor (attributes p))
                \<or> truthy (customBackgroundColor (attributes p))
            then {''has-background''} else {})"
proof -
  let ?a = "attributes p"
  let ?c = "backgroundClass gcc ?a"
  let ?k3 = "''has-'' @ to_string (contentAlign ?a) @ ''-content''"
  let ?v1 = "of_str (js_or (backgroundColor ?a) (customBackgroundColor ?a))"
  have ne: "''has-background'' \<noteq> ?k3" by (rule has_background_not_content)
  have tr: "''has-background'' = to_string ?c \<longrightarrow> js_truthy (of_str ?c)"
    using to_string_key_truthy [of ?c] by simp
  have s: "classnames_list (save_class_args gcc ?a) =
             classnames_arg (JObj (object_literal
               [ (''has-background'', ?v1), (to_string ?c, of_str ?c),
                 (?k3, of_str (contentAlign ?a)) ]))"
    by (simp add: classnames_list_def save_class_args_def)
  have e: "classnames_list (edit_class_args (p\<lparr>className := None\<rparr>)) =
             classnames_arg (JObj (object_literal
               [ (to_string ?c, of_str ?c), (?k3, of_str (contentAlign ?a)) ]))"
    using assms by (simp add: classnames_list_def edit_class_args_def)
  show ?thesis
    unfolding s e truthy_keys_extend [OF ne tr, of ?v1 "of_str (contentAlign ?a)"]
      truthy_js_or ..
qed

theorem save_classes_vs_edit_witness:
  "color_class \<lparr> color = Some ''#f00'', color_class = Some ''has-red-background-color'' \<rparr>
     = backgroundClass sample_lookup
         (no_attributes\<lparr>backgroundColor := Some ''red'', contentAlign := Some ''center''\<rparr>)
   \<and> set (classnames_list (save_class_args sample_lookup
           (no_attributes\<lparr>backgroundColor := Some ''red'', contentAlign := Some ''center''\<rparr>)))
      = set (classnames_list (edit_class_args
           \<lparr> isSelected = True, className = None,
             attributes =
               no_attributes\<lparr>backgroundColor := Some ''red'', contentAlign := Some ''center''\<rparr>,
             backgroundColor_prop =
               \<lparr> color = Some ''#f00'', color_class = Some ''has-red-background-color'' \<rparr> \<rparr>))
        \<union> {''has-background''}"
proof -
  let ?p = "\<lparr> isSelected = True, className = Some ''wp-block-party'',
              attributes =
                no_attributes\<lparr>backgroundColor := Some ''red'', contentAlign := Some ''center''\<rparr>,
              backgroundColor_prop =
                \<lparr> color = Some ''#f00'', color_class = Some ''has-red-background-color'' \<rparr> \<rparr>"
  have h: "color_class (backgroundColor_prop ?p) = backgroundClass sample_lookup (attributes ?p)"
    by (simp add: backgroundClass_def sample_lookup_def truthy_def to_string_def)
  show ?thesis
    using h save_classes_vs_edit [OF h] by (simp add: truthy_def)
qed

end
